theory Spec2Isabelle
  imports Complex_Main "HOL-Library.Word" "HOL-Library.AList"
begin

section \<open>Image buffers, Python values and exceptions\<close>

text \<open>
  An image buffer is a NumPy array of 8-bit samples: its \<open>shape\<close> (height, width,
  channels for a colour image) and its samples in row-major order. Every hand-off in the
  source goes through \<open>.copy()\<close>, so buffers are values here.
\<close>

record ndarray =
  shape :: "nat list"
  samples :: "8 word list"

text \<open>\<open>image.size\<close>: the number of samples, the product of the shape.\<close>

definition size_of :: "ndarray \<Rightarrow> nat" where
  "size_of img = prod_list (shape img)"

datatype exn =
    ValueError string
  | TypeError
  | IndexError
  | AttributeError
  | OverflowError
  | cv2_error

text \<open>
  Keyword arguments are a dictionary from names to Python values. A float is carried as
  the rational it denotes (no nan, no infinity).
\<close>

datatype pyval = PNone | PInt int | PFloat rat | PStr string

type_synonym kwargs = "(string \<times> pyval) list"

text \<open>\<open>int(x)\<close> on a float truncates towards zero.\<close>

definition py_int :: "rat \<Rightarrow> int" where
  "py_int x = (if 0 \<le> x then \<lfloor>x\<rfloor> else \<lceil>x\<rceil>)"

text \<open>
  A keyword argument where a number is annotated: Python takes an \<open>int\<close> where a \<open>float\<close>
  is annotated and computes with it as an \<open>int\<close>.
\<close>

datatype pynum = NInt int | NFloat rat

text \<open>
  Binding a keyword parameter of \<open>apply\<close>: the default when the key is absent, the value
  when it has the annotated type, and \<open>None\<close> for a value of another type. What a filter
  does with a value of another type is not settled by the repository's code alone; such
  a call is handed to the parameter \<open>beyond_annotation\<close> of the next section.
\<close>

definition kw_int :: "kwargs \<Rightarrow> string \<Rightarrow> int \<Rightarrow> int option" where
  "kw_int kw k d =
     (case map_of kw k of
        None \<Rightarrow> Some d
      | Some (PInt i) \<Rightarrow> Some i
      | Some _ \<Rightarrow> None)"

definition kw_num :: "kwargs \<Rightarrow> string \<Rightarrow> pynum \<Rightarrow> pynum option" where
  "kw_num kw k d =
     (case map_of kw k of
        None \<Rightarrow> Some d
      | Some (PFloat r) \<Rightarrow> Some (NFloat r)
      | Some (PInt i) \<Rightarrow> Some (NInt i)
      | Some _ \<Rightarrow> None)"

text \<open>A parameter annotated \<open>int\<close> with the default \<open>None\<close>.\<close>

definition kw_opt_int :: "kwargs \<Rightarrow> string \<Rightarrow> int option option" where
  "kw_opt_int kw k =
     (case map_of kw k of
        None \<Rightarrow> Some None
      | Some PNone \<Rightarrow> Some None
      | Some (PInt i) \<Rightarrow> Some (Some i)
      | Some _ \<Rightarrow> None)"

text \<open>A parameter taken as it comes.\<close>

definition kw_val :: "kwargs \<Rightarrow> string \<Rightarrow> pyval \<Rightarrow> pyval" where
  "kw_val kw k d = (case map_of kw k of None \<Rightarrow> d | Some v \<Rightarrow> v)"

text \<open>\<open>str.lower()\<close> on the ASCII letters, which is all a comparison with
  \<open>"horizontal"\<close> or \<open>"vertical"\<close> can see.\<close>

definition lower_char :: "char \<Rightarrow> char" where
  "lower_char c =
     (let n = (of_char c :: nat) in if 65 \<le> n \<and> n \<le> 90 then char_of (n + 32) else c)"

definition lower :: "string \<Rightarrow> string" where
  "lower s = map lower_char s"

section \<open>The filter classes\<close>

text \<open>The class hierarchy under \<open>FilterProcessor\<close>; the base class carries the name and
  description its constructor is given.\<close>

datatype filter_processor =
    FilterProcessor string string
  | GrayscaleFilter
  | BlurFilter
  | EdgeDetectionFilter
  | BrightnessAdjustment
  | ContrastAdjustment
  | RotationFilter
  | FlipFilter
  | ResizeFilter

fun name :: "filter_processor \<Rightarrow> string" where
  "name (FilterProcessor n d) = n"
| "name GrayscaleFilter = ''Grayscale''"
| "name BlurFilter = ''Blur''"
| "name EdgeDetectionFilter = ''Edge Detection''"
| "name BrightnessAdjustment = ''Brightness''"
| "name ContrastAdjustment = ''Contrast''"
| "name RotationFilter = ''Rotation''"
| "name FlipFilter = ''Flip''"
| "name ResizeFilter = ''Resize''"

fun description :: "filter_processor \<Rightarrow> string" where
  "description (FilterProcessor n d) = d"
| "description GrayscaleFilter = ''Converts image to black and white''"
| "description BlurFilter = ''Applies Gaussian blur effect''"
| "description EdgeDetectionFilter = ''Detects edges using Canny algorithm''"
| "description BrightnessAdjustment = ''Adjusts image brightness''"
| "description ContrastAdjustment = ''Adjusts image contrast''"
| "description RotationFilter = ''Rotates image by specified angle''"
| "description FlipFilter = ''Flips image horizontally or vertically''"
| "description ResizeFilter = ''Resizes image to specified dimensions''"

section \<open>The external libraries\<close>

text \<open>
  OpenCV, the floating-point and overflowing parts of NumPy, Python's float arithmetic
  and its formatting of a dictionary are not code of the repository. They are a parameter
  of the model: a record of functions. Theorems hold for every such record.
\<close>

datatype color_code = COLOR_BGR2GRAY | COLOR_GRAY2BGR

datatype rotate_code = ROTATE_90_CLOCKWISE | ROTATE_180 | ROTATE_90_COUNTERCLOCKWISE

record extern =
  imread :: "string \<Rightarrow> ndarray option"
  cvtColor :: "ndarray \<Rightarrow> color_code \<Rightarrow> exn + ndarray"
  GaussianBlur :: "ndarray \<Rightarrow> int \<times> int \<Rightarrow> exn + ndarray"
  Canny :: "ndarray \<Rightarrow> int \<Rightarrow> int \<Rightarrow> exn + ndarray"
  rotate :: "ndarray \<Rightarrow> rotate_code \<Rightarrow> exn + ndarray"
  warpAffine_rotation :: "ndarray \<Rightarrow> nat \<times> nat \<Rightarrow> int \<Rightarrow> nat \<times> nat \<Rightarrow> exn + ndarray"
  flip :: "ndarray \<Rightarrow> int \<Rightarrow> exn + ndarray"
  resize :: "ndarray \<Rightarrow> int \<times> int \<Rightarrow> exn + ndarray"
  add_beyond_int16 :: "ndarray \<Rightarrow> int \<Rightarrow> exn + int list"
  scale_float32 :: "ndarray \<Rightarrow> rat \<Rightarrow> exn + ndarray"
  float_mul :: "rat \<Rightarrow> rat \<Rightarrow> rat"
  float_div :: "rat \<Rightarrow> rat \<Rightarrow> rat"
  beyond_annotation :: "filter_processor \<Rightarrow> ndarray \<Rightarrow> kwargs \<Rightarrow> exn + ndarray"
  format_kwargs :: "kwargs \<Rightarrow> string"

text \<open>
  \<^item> \<open>warpAffine_rotation img center angle (width, height)\<close> stands for
    \<open>cv2.warpAffine(image, cv2.getRotationMatrix2D(center, angle, 1.0), (width, height))\<close>;
  \<^item> \<open>add_beyond_int16 img value\<close> stands for the samples of
    \<open>image.astype(np.int16) + value\<close> when \<open>value\<close> does not fit 16 bits, where NumPy
    either widens the array or raises, depending on its version;
  \<^item> \<open>scale_float32 img value\<close> stands for
    \<open>convert_to_uint8(image.astype(np.float32) * value)\<close>;
  \<^item> \<open>float_mul x y\<close> and \<open>float_div x y\<close> stand for the float product \<open>x * y\<close> and
    quotient \<open>x / y\<close> of Python: the exact result rounded to a float;
  \<^item> \<open>beyond_annotation f img kwargs\<close> stands for \<open>f.apply(img, **kwargs)\<close> when a keyword
    argument has another type than the parameter's annotation;
  \<^item> \<open>format_kwargs kwargs\<close> stands for \<open>f"{kwargs}"\<close>.
\<close>

section \<open>The filters (image\_processor.py)\<close>

text \<open>\<open>ImageProcessor.validate_image\<close>: the argument is an array by its type, so the
  test left is \<open>image.size > 0\<close>.\<close>

definition validate_image :: "ndarray \<Rightarrow> bool" where
  "validate_image img = (0 < size_of img)"

text \<open>
  \<open>ImageProcessor.convert_to_uint8\<close> on an integer array that is not \<open>uint8\<close> (its only
  integer caller passes \<open>int16\<close> or wider): clip to \<open>[0, 255]\<close>, then cast.
\<close>

definition clip_uint8 :: "int \<Rightarrow> 8 word" where
  "clip_uint8 x = word_of_int (min (max x 0) 255)"

definition convert_to_uint8 :: "nat list \<Rightarrow> int list \<Rightarrow> ndarray" where
  "convert_to_uint8 shp xs = \<lparr>shape = shp, samples = map clip_uint8 xs\<rparr>"

definition FilterProcessor_apply :: "ndarray \<Rightarrow> exn + ndarray" where
  "FilterProcessor_apply img =
     (if \<not> validate_image img then Inl (ValueError ''Invalid image provided'')
      else Inr img)"

definition GrayscaleFilter_apply :: "extern \<Rightarrow> ndarray \<Rightarrow> exn + ndarray" where
  "GrayscaleFilter_apply L img =
     (if \<not> validate_image img then Inl (ValueError ''Invalid image for grayscale conversion'')
      else case cvtColor L img COLOR_BGR2GRAY of
             Inl e \<Rightarrow> Inl e
           | Inr gray \<Rightarrow> cvtColor L gray COLOR_GRAY2BGR)"

text \<open>The kernel size \<open>BlurFilter.apply\<close> computes from the intensity. Python's \<open>%\<close> with a
  positive modulus is \<open>mod\<close> on \<open>int\<close>: the remainder is never negative.\<close>

definition kernel_size :: "int \<Rightarrow> int" where
  "kernel_size intensity = max 1 (if intensity mod 2 = 1 then intensity else intensity + 1)"

definition BlurFilter_apply :: "extern \<Rightarrow> ndarray \<Rightarrow> int \<Rightarrow> exn + ndarray" where
  "BlurFilter_apply L img intensity =
     (if \<not> validate_image img then Inl (ValueError ''Invalid image for blur'')
      else GaussianBlur L img (kernel_size intensity, kernel_size intensity))"

definition EdgeDetectionFilter_apply :: "extern \<Rightarrow> ndarray \<Rightarrow> int \<Rightarrow> int \<Rightarrow> exn + ndarray" where
  "EdgeDetectionFilter_apply L img threshold1 threshold2 =
     (if \<not> validate_image img then Inl (ValueError ''Invalid image for edge detection'')
      else case cvtColor L img COLOR_BGR2GRAY of
             Inl e \<Rightarrow> Inl e
           | Inr gray \<Rightarrow>
               (case Canny L gray threshold1 threshold2 of
                  Inl e \<Rightarrow> Inl e
                | Inr edges \<Rightarrow> cvtColor L edges COLOR_GRAY2BGR))"

text \<open>
  \<open>image.astype(np.int16) + value\<close> for a value that fits 16 bits: the sum wraps in
  16 bits and is read as a signed number.
\<close>

definition add_int16 :: "8 word \<Rightarrow> int \<Rightarrow> int" where
  "add_int16 s v = sint ((ucast s :: 16 word) + word_of_int v)"

definition BrightnessAdjustment_apply :: "extern \<Rightarrow> ndarray \<Rightarrow> int \<Rightarrow> exn + ndarray" where
  "BrightnessAdjustment_apply L img v =
     (if \<not> validate_image img then Inl (ValueError ''Invalid image for brightness adjustment'')
      else if - 32768 \<le> v \<and> v \<le> 32767
        then Inr (convert_to_uint8 (shape img) (map (\<lambda>s. add_int16 s v) (samples img)))
      else case add_beyond_int16 L img v of
             Inl e \<Rightarrow> Inl e
           | Inr adjusted \<Rightarrow> Inr (convert_to_uint8 (shape img) adjusted))"

definition ContrastAdjustment_apply :: "extern \<Rightarrow> ndarray \<Rightarrow> pynum \<Rightarrow> exn + ndarray" where
  "ContrastAdjustment_apply L img v =
     (if \<not> validate_image img then Inl (ValueError ''Invalid image for contrast adjustment'')
      else scale_float32 L img (case v of NInt i \<Rightarrow> of_int i | NFloat r \<Rightarrow> r))"

definition RotationFilter_apply :: "extern \<Rightarrow> ndarray \<Rightarrow> int \<Rightarrow> exn + ndarray" where
  "RotationFilter_apply L img angle =
     (if \<not> validate_image img then Inl (ValueError ''Invalid image for rotation'')
      else if angle = 90 then rotate L img ROTATE_90_CLOCKWISE
      else if angle = 180 then rotate L img ROTATE_180
      else if angle = 270 then rotate L img ROTATE_90_COUNTERCLOCKWISE
      else if length (shape img) < 2 then Inl (ValueError ''not enough values to unpack'')
      else let h = shape img ! 0; w = shape img ! 1
           in warpAffine_rotation L img (w div 2, h div 2) angle (w, h))"

text \<open>\<open>FlipFilter.apply\<close>. Only a string has \<open>lower()\<close>.\<close>

definition FlipFilter_apply :: "extern \<Rightarrow> ndarray \<Rightarrow> pyval \<Rightarrow> exn + ndarray" where
  "FlipFilter_apply L img direction =
     (if \<not> validate_image img then Inl (ValueError ''Invalid image for flip'')
      else case direction of
        PStr d \<Rightarrow>
          (if lower d = ''horizontal'' then flip L img 1
           else if lower d = ''vertical'' then flip L img 0
           else flip L img (- 1))
      | _ \<Rightarrow> Inl AttributeError)"

text \<open>
  \<open>int(n * scale)\<close> for a dimension \<open>n\<close> of the image: an integer product when the scale
  is an \<open>int\<close>, the float product truncated when it is a \<open>float\<close>.
\<close>

definition scaled :: "extern \<Rightarrow> nat \<Rightarrow> pynum \<Rightarrow> int" where
  "scaled L n scale =
     (case scale of
        NInt i \<Rightarrow> int n * i
      | NFloat r \<Rightarrow> py_int (float_mul L (of_nat n) r))"

text \<open>\<open>ResizeFilter.apply\<close>. \<open>width and height\<close> holds when both are given and
  non-zero.\<close>

definition ResizeFilter_apply ::
  "extern \<Rightarrow> ndarray \<Rightarrow> int option \<Rightarrow> int option \<Rightarrow> pynum \<Rightarrow> exn + ndarray" where
  "ResizeFilter_apply L img w h scale =
     (if \<not> validate_image img then Inl (ValueError ''Invalid image for resize'')
      else case (w, h) of
        (Some w', Some h') \<Rightarrow>
          (if w' \<noteq> 0 \<and> h' \<noteq> 0 then resize L img (w', h')
           else if length (shape img) < 2 then Inl IndexError
           else resize L img (scaled L (shape img ! 1) scale, scaled L (shape img ! 0) scale))
      | _ \<Rightarrow>
          (if length (shape img) < 2 then Inl IndexError
           else resize L img (scaled L (shape img ! 1) scale, scaled L (shape img ! 0) scale)))"

text \<open>
  The call \<open>filter_obj.apply(image, **kwargs)\<close>: dynamic dispatch on the filter's class,
  after the keyword arguments are bound to the parameters of that class's \<open>apply\<close>. A
  keyword named \<open>image\<close> collides with the positional argument.
\<close>

definition filter_apply :: "extern \<Rightarrow> filter_processor \<Rightarrow> ndarray \<Rightarrow> kwargs \<Rightarrow> exn + ndarray" where
  "filter_apply L f img kw =
     (if map_of kw ''image'' \<noteq> None then Inl TypeError
      else case f of
        FilterProcessor n d \<Rightarrow> FilterProcessor_apply img
      | GrayscaleFilter \<Rightarrow> GrayscaleFilter_apply L img
      | BlurFilter \<Rightarrow>
          (case kw_int kw ''intensity'' 5 of
             None \<Rightarrow> beyond_annotation L f img kw
           | Some i \<Rightarrow> BlurFilter_apply L img i)
      | EdgeDetectionFilter \<Rightarrow>
          (case (kw_int kw ''threshold1'' 100, kw_int kw ''threshold2'' 200) of
             (Some t1, Some t2) \<Rightarrow> EdgeDetectionFilter_apply L img t1 t2
           | _ \<Rightarrow> beyond_annotation L f img kw)
      | BrightnessAdjustment \<Rightarrow>
          (case kw_int kw ''value'' 0 of
             None \<Rightarrow> beyond_annotation L f img kw
           | Some v \<Rightarrow> BrightnessAdjustment_apply L img v)
      | ContrastAdjustment \<Rightarrow>
          (case kw_num kw ''value'' (NFloat 1) of
             None \<Rightarrow> beyond_annotation L f img kw
           | Some v \<Rightarrow> ContrastAdjustment_apply L img v)
      | RotationFilter \<Rightarrow>
          (case kw_int kw ''angle'' 90 of
             None \<Rightarrow> beyond_annotation L f img kw
           | Some a \<Rightarrow> RotationFilter_apply L img a)
      | FlipFilter \<Rightarrow> FlipFilter_apply L img (kw_val kw ''direction'' (PStr ''horizontal''))
      | ResizeFilter \<Rightarrow>
          (case (kw_opt_int kw ''width'', kw_opt_int kw ''height'',
                 kw_num kw ''scale'' (NFloat 1)) of
             (Some w, Some h, Some s) \<Rightarrow> ResizeFilter_apply L img w h s
           | _ \<Rightarrow> beyond_annotation L f img kw))"

section \<open>The document (models/image.py)\<close>

record Image =
  filepath :: string
  original_image :: ndarray
  current_image :: ndarray
  width :: nat
  height :: nat

text \<open>
  The constructor with \<open>_load_image\<close>: it raises when the file cannot be decoded, and the
  unpacking \<open>self._height, self._width = image.shape[:2]\<close> raises on an array of fewer
  than two dimensions.
\<close>

definition Image_init :: "extern \<Rightarrow> string \<Rightarrow> exn + Image" where
  "Image_init L path =
     (case imread L path of
        None \<Rightarrow> Inl (ValueError (''Unable to load image from '' @ path))
      | Some img \<Rightarrow>
          (if length (shape img) < 2 then Inl (ValueError ''not enough values to unpack'')
           else Inr \<lparr>filepath = path, original_image = img, current_image = img,
                     width = shape img ! 1, height = shape img ! 0\<rparr>))"

text \<open>
  The setter of \<open>current_image\<close> assigns the buffer first and unpacks the shape second:
  when the unpacking raises, the buffer is already replaced. The result is the exception
  raised, if any, and the object as the call leaves it.
\<close>

definition Image_set_current_image :: "Image \<Rightarrow> ndarray \<Rightarrow> exn option \<times> Image" where
  "Image_set_current_image im img =
     (let im1 = im\<lparr>current_image := img\<rparr>
      in if length (shape img) < 2 then (Some (ValueError ''not enough values to unpack''), im1)
         else (None, im1\<lparr>height := shape img ! 0, width := shape img ! 1\<rparr>))"

definition dimensions :: "Image \<Rightarrow> nat \<times> nat" where
  "dimensions im = (width im, height im)"

definition reset_to_original :: "Image \<Rightarrow> exn option \<times> Image" where
  "reset_to_original im =
     (let im1 = im\<lparr>current_image := original_image im\<rparr>
      in if length (shape (original_image im)) < 2
         then (Some (ValueError ''not enough values to unpack''), im1)
         else (None, im1\<lparr>height := shape (original_image im) ! 0,
                           width := shape (original_image im) ! 1\<rparr>))"

definition update_original :: "Image \<Rightarrow> Image" where
  "update_original im = im\<lparr>original_image := current_image im\<rparr>"

section \<open>The filter manager (manager/filter\_manager.py)\<close>

text \<open>
  \<open>FilterManager\<close> inherits the registry of \<open>FilterRegistry\<close> and the operation log of
  \<open>HistoryTracker\<close>. The registry is a dictionary in insertion order; the two stacks are
  Python lists, most recent last.
\<close>

record FilterManager =
  registry :: "(string \<times> filter_processor) list"
  history :: "string list"
  fm_current_image :: "Image option"
  undo_stack :: "ndarray list"
  redo_stack :: "ndarray list"

definition register_filter :: "FilterManager \<Rightarrow> string \<Rightarrow> filter_processor \<Rightarrow> FilterManager" where
  "register_filter fm key filter_obj = fm\<lparr>registry := AList.update key filter_obj (registry fm)\<rparr>"

definition get_filter :: "FilterManager \<Rightarrow> string \<Rightarrow> filter_processor option" where
  "get_filter fm key = map_of (registry fm) key"

definition list_filters :: "FilterManager \<Rightarrow> string list" where
  "list_filters fm = map fst (registry fm)"

definition add_to_history :: "FilterManager \<Rightarrow> string \<Rightarrow> FilterManager" where
  "add_to_history fm operation = fm\<lparr>history := history fm @ [operation]\<rparr>"

definition get_history :: "FilterManager \<Rightarrow> string list" where
  "get_history fm = history fm"

definition clear_history :: "FilterManager \<Rightarrow> FilterManager" where
  "clear_history fm = fm\<lparr>history := []\<rparr>"

definition last_operation :: "FilterManager \<Rightarrow> string option" where
  "last_operation fm = (if history fm = [] then None else Some (last (history fm)))"

definition register_default_filters :: "FilterManager \<Rightarrow> FilterManager" where
  "register_default_filters fm =
     register_filter (register_filter (register_filter (register_filter
       (register_filter (register_filter (register_filter (register_filter fm
          ''grayscale'' GrayscaleFilter)
          ''blur'' BlurFilter)
          ''edge'' EdgeDetectionFilter)
          ''brightness'' BrightnessAdjustment)
          ''contrast'' ContrastAdjustment)
          ''rotate'' RotationFilter)
          ''flip'' FlipFilter)
          ''resize'' ResizeFilter"

definition FilterManager_init :: FilterManager where
  "FilterManager_init =
     register_default_filters
       \<lparr>registry = [], history = [], fm_current_image = None, undo_stack = [], redo_stack = []\<rparr>"

text \<open>The setter of \<open>FilterManager.current_image\<close>.\<close>

definition FilterManager_set_current_image :: "FilterManager \<Rightarrow> Image \<Rightarrow> FilterManager" where
  "FilterManager_set_current_image fm im =
     fm\<lparr>fm_current_image := Some im, undo_stack := [], redo_stack := []\<rparr>"

text \<open>The \<open>except\<close> branch of \<open>apply_filter\<close>: pop the undo stack when it is not empty.\<close>

definition apply_filter_except :: "FilterManager \<Rightarrow> FilterManager" where
  "apply_filter_except fm =
     (if undo_stack fm = [] then fm else fm\<lparr>undo_stack := butlast (undo_stack fm)\<rparr>)"

definition operation_text :: "extern \<Rightarrow> filter_processor \<Rightarrow> kwargs \<Rightarrow> string" where
  "operation_text L filter_obj kw =
     ''Applied '' @ name filter_obj @ (if kw = [] then [] else '' with params: '' @ format_kwargs L kw)"

text \<open>
  \<open>apply_filter\<close>. Every exception of the \<open>try\<close> block is caught, so the call returns a
  truth value in all cases. The image object is shared with the caller: what the setter
  did to it before raising stays done.
\<close>

definition apply_filter :: "extern \<Rightarrow> FilterManager \<Rightarrow> string \<Rightarrow> kwargs \<Rightarrow> bool \<times> FilterManager" where
  "apply_filter L fm filter_key kw =
     (case fm_current_image fm of
        None \<Rightarrow> (False, fm)
      | Some im \<Rightarrow>
          (case get_filter fm filter_key of
             None \<Rightarrow> (False, fm)
           | Some filter_obj \<Rightarrow>
               (let fm1 = fm\<lparr>undo_stack := undo_stack fm @ [current_image im]\<rparr>;
                    fm2 = fm1\<lparr>redo_stack := []\<rparr>
                in case filter_apply L filter_obj (current_image im) kw of
                     Inl e \<Rightarrow> (False, apply_filter_except fm2)
                   | Inr processed_img \<Rightarrow>
                       (case Image_set_current_image im processed_img of
                          (Some e, im') \<Rightarrow>
                            (False, apply_filter_except (fm2\<lparr>fm_current_image := Some im'\<rparr>))
                        | (None, im') \<Rightarrow>
                            (True, add_to_history (fm2\<lparr>fm_current_image := Some im'\<rparr>)
                                     (operation_text L filter_obj kw))))))"

text \<open>
  \<open>undo\<close> and \<open>redo\<close> have no \<open>try\<close>: an exception of the setter leaves the method.
  \<open>Inl e\<close> is that exception, \<open>Inr b\<close> the value returned.
\<close>

definition undo :: "FilterManager \<Rightarrow> (exn + bool) \<times> FilterManager" where
  "undo fm =
     (if undo_stack fm = [] \<or> fm_current_image fm = None then (Inr False, fm)
      else case fm_current_image fm of
        None \<Rightarrow> (Inr False, fm)
      | Some im \<Rightarrow>
          (let fm1 = fm\<lparr>redo_stack := redo_stack fm @ [current_image im]\<rparr>;
               previous_state = last (undo_stack fm1);
               fm2 = fm1\<lparr>undo_stack := butlast (undo_stack fm1)\<rparr>
           in case Image_set_current_image im previous_state of
                (Some e, im') \<Rightarrow> (Inl e, fm2\<lparr>fm_current_image := Some im'\<rparr>)
              | (None, im') \<Rightarrow> (Inr True, fm2\<lparr>fm_current_image := Some im'\<rparr>)))"

definition redo :: "FilterManager \<Rightarrow> (exn + bool) \<times> FilterManager" where
  "redo fm =
     (if redo_stack fm = [] \<or> fm_current_image fm = None then (Inr False, fm)
      else case fm_current_image fm of
        None \<Rightarrow> (Inr False, fm)
      | Some im \<Rightarrow>
          (let fm1 = fm\<lparr>undo_stack := undo_stack fm @ [current_image im]\<rparr>;
               redo_state = last (redo_stack fm1);
               fm2 = fm1\<lparr>redo_stack := butlast (redo_stack fm1)\<rparr>
           in case Image_set_current_image im redo_state of
                (Some e, im') \<Rightarrow> (Inl e, fm2\<lparr>fm_current_image := Some im'\<rparr>)
              | (None, im') \<Rightarrow> (Inr True, fm2\<lparr>fm_current_image := Some im'\<rparr>)))"

definition can_undo :: "FilterManager \<Rightarrow> bool" where
  "can_undo fm = (undo_stack fm \<noteq> [])"

definition can_redo :: "FilterManager \<Rightarrow> bool" where
  "can_redo fm = (redo_stack fm \<noteq> [])"

section \<open>The slider preview of the window (gui/main\_window.py)\<close>

text \<open>
  Of \<open>ImageEditorApp\<close> the model keeps the filter manager, the baseline of the sliders
  (\<open>_original_for_sliders\<close>) and the values of the four sliders. The field \<open>_image\<close> is
  assigned once, in \<open>_open_image\<close>, to the object that is handed to the manager on the
  next line, so it is the manager's image under another name. Labels, the canvas, the
  status bar, dialogs and the zoom level are left out.
\<close>

record ImageEditorApp =
  filter_manager :: FilterManager
  original_for_sliders :: "ndarray option"
  blur_slider :: rat
  brightness_slider :: rat
  contrast_slider :: rat
  resize_slider :: rat

definition app_image :: "ImageEditorApp \<Rightarrow> Image option" where
  "app_image a = fm_current_image (filter_manager a)"

text \<open>The buffer the window shows: the current buffer of the document, if there is one.\<close>

definition displayed :: "ImageEditorApp \<Rightarrow> ndarray option" where
  "displayed a = map_option current_image (app_image a)"

text \<open>The window as the constructor leaves it; \<open>_create_control_panel\<close> sets the sliders
  to 1, 0, 1.0 and 100.\<close>

definition ImageEditorApp_init :: ImageEditorApp where
  "ImageEditorApp_init =
     \<lparr>filter_manager = FilterManager_init, original_for_sliders = None,
      blur_slider = 1, brightness_slider = 0, contrast_slider = 1, resize_slider = 100\<rparr>"

subsection \<open>The handlers of the sliders\<close>

text \<open>
  Each handler is called with the value of its slider. It returns at once when there is no
  image or no baseline. The filter runs on the baseline; the \<open>try\<close> block catches a missing
  filter, a failing filter and a failing setter alike, and the setter has replaced the
  buffer before it fails.
\<close>

definition on_blur_change :: "extern \<Rightarrow> ImageEditorApp \<Rightarrow> rat \<Rightarrow> ImageEditorApp" where
  "on_blur_change L a v =
     (case app_image a of
        None \<Rightarrow> a
      | Some im \<Rightarrow>
          (case original_for_sliders a of
             None \<Rightarrow> a
           | Some baseline \<Rightarrow>
               (let intensity = (if py_int v mod 2 = 0 then py_int v + 1 else py_int v)
                in case get_filter (filter_manager a) ''blur'' of
                     None \<Rightarrow> a
                   | Some blur_filter \<Rightarrow>
                       (case filter_apply L blur_filter baseline
                               [(''intensity'', PInt intensity)] of
                          Inl e \<Rightarrow> a
                        | Inr filtered \<Rightarrow>
                            a\<lparr>filter_manager := (filter_manager a)
                                \<lparr>fm_current_image :=
                                   Some (snd (Image_set_current_image im filtered))\<rparr>\<rparr>))))"

definition on_brightness_change :: "extern \<Rightarrow> ImageEditorApp \<Rightarrow> rat \<Rightarrow> ImageEditorApp" where
  "on_brightness_change L a v =
     (case app_image a of
        None \<Rightarrow> a
      | Some im \<Rightarrow>
          (case original_for_sliders a of
             None \<Rightarrow> a
           | Some baseline \<Rightarrow>
               (let brightness_value = py_int v
                in case get_filter (filter_manager a) ''brightness'' of
                     None \<Rightarrow> a
                   | Some brightness_filter \<Rightarrow>
                       (case filter_apply L brightness_filter baseline
                               [(''value'', PInt brightness_value)] of
                          Inl e \<Rightarrow> a
                        | Inr filtered \<Rightarrow>
                            a\<lparr>filter_manager := (filter_manager a)
                                \<lparr>fm_current_image :=
                                   Some (snd (Image_set_current_image im filtered))\<rparr>\<rparr>))))"

definition on_contrast_change :: "extern \<Rightarrow> ImageEditorApp \<Rightarrow> rat \<Rightarrow> ImageEditorApp" where
  "on_contrast_change L a v =
     (case app_image a of
        None \<Rightarrow> a
      | Some im \<Rightarrow>
          (case original_for_sliders a of
             None \<Rightarrow> a
           | Some baseline \<Rightarrow>
               (let contrast_value = v
                in case get_filter (filter_manager a) ''contrast'' of
                     None \<Rightarrow> a
                   | Some contrast_filter \<Rightarrow>
                       (case filter_apply L contrast_filter baseline
                               [(''value'', PFloat contrast_value)] of
                          Inl e \<Rightarrow> a
                        | Inr filtered \<Rightarrow>
                            a\<lparr>filter_manager := (filter_manager a)
                                \<lparr>fm_current_image :=
                                   Some (snd (Image_set_current_image im filtered))\<rparr>\<rparr>))))"

definition on_resize_change :: "extern \<Rightarrow> ImageEditorApp \<Rightarrow> rat \<Rightarrow> ImageEditorApp" where
  "on_resize_change L a v =
     (case app_image a of
        None \<Rightarrow> a
      | Some im \<Rightarrow>
          (case original_for_sliders a of
             None \<Rightarrow> a
           | Some baseline \<Rightarrow>
               (let scale_percent = py_int v;
                    scale = float_div L (of_int scale_percent) 100
                in case get_filter (filter_manager a) ''resize'' of
                     None \<Rightarrow> a
                   | Some resize_filter \<Rightarrow>
                       (case filter_apply L resize_filter baseline
                               [(''scale'', PFloat scale)] of
                          Inl e \<Rightarrow> a
                        | Inr filtered \<Rightarrow>
                            a\<lparr>filter_manager := (filter_manager a)
                                \<lparr>fm_current_image :=
                                   Some (snd (Image_set_current_image im filtered))\<rparr>\<rparr>))))"

subsection \<open>The slider widgets\<close>

text \<open>
  A Tk slider that takes a new value, from the user's drag or from \<open>set\<close>, stores it and
  runs its command, the handler above, with it; \<open>set\<close> with the value the slider already
  has runs nothing. The source counts on this (the comment in \<open>_reset_slider\<close> says that the command of the
  slider will trigger and reset the image). Tk runs the command when it next
  redraws the slider; the model runs it at once, so the handlers run in the order of the
  \<open>set\<close> calls. Values are taken as Tk delivers them, inside the range of the slider.
\<close>

datatype slider = BlurSlider | BrightnessSlider | ContrastSlider | ResizeSlider

fun slider_value :: "ImageEditorApp \<Rightarrow> slider \<Rightarrow> rat" where
  "slider_value a BlurSlider = blur_slider a"
| "slider_value a BrightnessSlider = brightness_slider a"
| "slider_value a ContrastSlider = contrast_slider a"
| "slider_value a ResizeSlider = resize_slider a"

fun slider_store :: "ImageEditorApp \<Rightarrow> slider \<Rightarrow> rat \<Rightarrow> ImageEditorApp" where
  "slider_store a BlurSlider v = a\<lparr>blur_slider := v\<rparr>"
| "slider_store a BrightnessSlider v = a\<lparr>brightness_slider := v\<rparr>"
| "slider_store a ContrastSlider v = a\<lparr>contrast_slider := v\<rparr>"
| "slider_store a ResizeSlider v = a\<lparr>resize_slider := v\<rparr>"

fun command :: "extern \<Rightarrow> slider \<Rightarrow> ImageEditorApp \<Rightarrow> rat \<Rightarrow> ImageEditorApp" where
  "command L BlurSlider a v = on_blur_change L a v"
| "command L BrightnessSlider a v = on_brightness_change L a v"
| "command L ContrastSlider a v = on_contrast_change L a v"
| "command L ResizeSlider a v = on_resize_change L a v"

definition slider_moved :: "extern \<Rightarrow> ImageEditorApp \<Rightarrow> slider \<Rightarrow> rat \<Rightarrow> ImageEditorApp" where
  "slider_moved L a s v = command L s (slider_store a s v) v"

definition slider_set :: "extern \<Rightarrow> ImageEditorApp \<Rightarrow> slider \<Rightarrow> rat \<Rightarrow> ImageEditorApp" where
  "slider_set L a s v = (if slider_value a s = v then a else slider_moved L a s v)"

text \<open>The four lines that put the sliders back to their defaults, as \<open>_open_image\<close>,
  \<open>_apply_filter_permanent\<close>, \<open>_commit_slider_changes\<close> and \<open>_reset_to_original\<close> have
  them.\<close>

definition reset_sliders :: "extern \<Rightarrow> ImageEditorApp \<Rightarrow> ImageEditorApp" where
  "reset_sliders L a =
     (let a1 = slider_set L a BlurSlider 1;
          a2 = slider_set L a1 BrightnessSlider 0;
          a3 = slider_set L a2 ContrastSlider 1;
          a4 = slider_set L a3 ResizeSlider 100
      in a4)"

subsection \<open>The methods of the window\<close>

text \<open>\<open>_open_image\<close> with the path the file dialog returned (empty when cancelled).\<close>

definition open_image :: "extern \<Rightarrow> ImageEditorApp \<Rightarrow> string \<Rightarrow> ImageEditorApp" where
  "open_image L a path =
     (if path = [] then a
      else case Image_init L path of
        Inl e \<Rightarrow> a
      | Inr im \<Rightarrow>
          reset_sliders L
            (a\<lparr>filter_manager := FilterManager_set_current_image (filter_manager a) im,
               original_for_sliders := Some (current_image im)\<rparr>))"

definition apply_filter_permanent ::
  "extern \<Rightarrow> ImageEditorApp \<Rightarrow> string \<Rightarrow> kwargs \<Rightarrow> ImageEditorApp" where
  "apply_filter_permanent L a filter_key kw =
     (case app_image a of
        None \<Rightarrow> a
      | Some im \<Rightarrow>
          (case apply_filter L (filter_manager a) filter_key kw of
             (True, fm') \<Rightarrow>
               reset_sliders L
                 (a\<lparr>filter_manager := fm',
                    original_for_sliders := map_option current_image (fm_current_image fm')\<rparr>)
           | (False, fm') \<Rightarrow> a\<lparr>filter_manager := fm'\<rparr>))"

text \<open>\<open>_reset_slider\<close>, the reset button beside a slider.\<close>

definition reset_slider :: "extern \<Rightarrow> ImageEditorApp \<Rightarrow> slider \<Rightarrow> rat \<Rightarrow> ImageEditorApp" where
  "reset_slider L a s default_value =
     (case app_image a of
        None \<Rightarrow> a
      | Some im \<Rightarrow> slider_set L a s default_value)"

text \<open>\<open>_commit_slider_changes\<close>: the baseline becomes the current buffer, then the sliders
  are put back.\<close>

definition commit_slider_changes :: "extern \<Rightarrow> ImageEditorApp \<Rightarrow> ImageEditorApp" where
  "commit_slider_changes L a =
     (case app_image a of
        None \<Rightarrow> a
      | Some im \<Rightarrow> reset_sliders L (a\<lparr>original_for_sliders := Some (current_image im)\<rparr>))"

text \<open>\<open>_undo\<close> of the window calls the manager and redraws.\<close>

definition app_undo :: "ImageEditorApp \<Rightarrow> (exn + bool) \<times> ImageEditorApp" where
  "app_undo a = (case undo (filter_manager a) of (r, fm') \<Rightarrow> (r, a\<lparr>filter_manager := fm'\<rparr>))"

text \<open>
  \<open>_reset_to_original\<close>. An exception of \<open>Image.reset_to_original\<close> leaves the method
  with the buffer already put back.
\<close>

definition app_reset_to_original ::
  "extern \<Rightarrow> ImageEditorApp \<Rightarrow> exn option \<times> ImageEditorApp" where
  "app_reset_to_original L a =
     (case app_image a of
        None \<Rightarrow> (None, a)
      | Some im \<Rightarrow>
          (case reset_to_original im of
             (Some e, im') \<Rightarrow>
               (Some e, a\<lparr>filter_manager := (filter_manager a)\<lparr>fm_current_image := Some im'\<rparr>\<rparr>)
           | (None, im') \<Rightarrow>
               (None, reset_sliders L
                  (a\<lparr>filter_manager := (filter_manager a)\<lparr>fm_current_image := Some im'\<rparr>,
                     original_for_sliders := Some (current_image im')\<rparr>))))"

subsection \<open>What the four handlers share\<close>

text \<open>
  The four handlers differ in the key they look up and in the keyword argument they
  compute from the slider's value; \<open>preview_request\<close> gives both. The rest of their
  bodies is \<open>preview_with\<close>.
\<close>

fun preview_request :: "extern \<Rightarrow> slider \<Rightarrow> rat \<Rightarrow> string \<times> kwargs" where
  "preview_request L BlurSlider v =
     (''blur'', [(''intensity'', PInt (if py_int v mod 2 = 0 then py_int v + 1 else py_int v))])"
| "preview_request L BrightnessSlider v = (''brightness'', [(''value'', PInt (py_int v))])"
| "preview_request L ContrastSlider v = (''contrast'', [(''value'', PFloat v)])"
| "preview_request L ResizeSlider v =
     (''resize'', [(''scale'', PFloat (float_div L (of_int (py_int v)) 100))])"

definition preview_with :: "extern \<Rightarrow> ImageEditorApp \<Rightarrow> string \<Rightarrow> kwargs \<Rightarrow> ImageEditorApp" where
  "preview_with L a key kw =
     (case app_image a of
        None \<Rightarrow> a
      | Some im \<Rightarrow>
          (case original_for_sliders a of
             None \<Rightarrow> a
           | Some baseline \<Rightarrow>
               (case get_filter (filter_manager a) key of
                  None \<Rightarrow> a
                | Some f \<Rightarrow>
                    (case filter_apply L f baseline kw of
                       Inl e \<Rightarrow> a
                     | Inr filtered \<Rightarrow>
                         a\<lparr>filter_manager := (filter_manager a)
                             \<lparr>fm_current_image :=
                                Some (snd (Image_set_current_image im filtered))\<rparr>\<rparr>))))"

section \<open>Runs of calls\<close>

text \<open>
  A run of \<open>apply_filter\<close> calls, each of which returns \<open>True\<close> (\<open>None\<close> as soon as one
  does not), and \<open>n\<close> calls of \<open>undo\<close>, each of which returns \<open>True\<close>.
\<close>

fun apply_filters ::
  "extern \<Rightarrow> FilterManager \<Rightarrow> (string \<times> kwargs) list \<Rightarrow> FilterManager option" where
  "apply_filters L fm [] = Some fm"
| "apply_filters L fm (c # cs) =
     (case apply_filter L fm (fst c) (snd c) of
        (True, fm') \<Rightarrow> apply_filters L fm' cs
      | (False, fm') \<Rightarrow> None)"

fun undos :: "nat \<Rightarrow> FilterManager \<Rightarrow> FilterManager option" where
  "undos 0 fm = Some fm"
| "undos (Suc n) fm =
     (case undo fm of
        (Inr True, fm') \<Rightarrow> undos n fm'
      | _ \<Rightarrow> None)"

text \<open>A run of slider movements, each a slider and the value it takes, and a preview
  gesture: such a run followed by one commit.\<close>

definition slider_moves ::
  "extern \<Rightarrow> ImageEditorApp \<Rightarrow> (slider \<times> rat) list \<Rightarrow> ImageEditorApp" where
  "slider_moves L a us = foldl (\<lambda>b u. slider_moved L b (fst u) (snd u)) a us"

definition gesture :: "extern \<Rightarrow> ImageEditorApp \<Rightarrow> (slider \<times> rat) list \<Rightarrow> ImageEditorApp" where
  "gesture L a us = commit_slider_changes L (slider_moves L a us)"

text \<open>The recorded width and height of a document are those of its current buffer.\<close>

definition dimensions_recorded :: "Image \<Rightarrow> bool" where
  "dimensions_recorded im =
     (2 \<le> length (shape (current_image im)) \<and>
      height im = shape (current_image im) ! 0 \<and>
      width im = shape (current_image im) ! 1)"

text \<open>The original and the current buffer of the manager's document have the same height
  and width.\<close>

definition same_dimensions :: "Image \<Rightarrow> bool" where
  "same_dimensions im =
     (take 2 (shape (original_image im)) = take 2 (shape (current_image im)))"

section \<open>A library instance for the examples\<close>

text \<open>
  The examples below are evaluated with one instance of the external libraries: a decoder
  that knows a single file; a \<open>resize\<close> that, like OpenCV, rejects an empty size and
  returns its input when the size is unchanged, and otherwise returns a black buffer of
  the requested size; pixel operations that return their input; float arithmetic that is
  exact, as Python's is on the numbers of the examples. No theorem about the program
  depends on this instance; it only makes the examples closed terms.
\<close>

definition test_image :: ndarray where
  "test_image = \<lparr>shape = [2, 2, 1], samples = [10, 20, 30, 250]\<rparr>"

definition sim_resize :: "ndarray \<Rightarrow> int \<times> int \<Rightarrow> exn + ndarray" where
  "sim_resize img sz =
     (case sz of (w, h) \<Rightarrow>
        if w \<le> 0 \<or> h \<le> 0 then Inl cv2_error
        else if take 2 (shape img) = [nat h, nat w] then Inr img
        else Inr \<lparr>shape = nat h # nat w # drop 2 (shape img),
                  samples = replicate (nat h * nat w * prod_list (drop 2 (shape img))) 0\<rparr>)"

definition sim :: extern where
  "sim = \<lparr>imread = (\<lambda>p. if p = ''test_image.jpg'' then Some test_image else None),
          cvtColor = (\<lambda>img c. Inr img),
          GaussianBlur = (\<lambda>img k. Inr img),
          Canny = (\<lambda>img t1 t2. Inr img),
          rotate = (\<lambda>img c. Inr img),
          warpAffine_rotation = (\<lambda>img c a s. Inr img),
          flip = (\<lambda>img c. Inr img),
          resize = sim_resize,
          add_beyond_int16 = (\<lambda>img v. Inl OverflowError),
          scale_float32 = (\<lambda>img v. Inr img),
          float_mul = (\<lambda>x y. x * y),
          float_div = (\<lambda>x y. x / y),
          beyond_annotation = (\<lambda>f img kw. Inl TypeError),
          format_kwargs = (\<lambda>kw. ''{...}'')\<rparr>"

text \<open>The window after \<open>test_image.jpg\<close> is opened, and its filter manager.\<close>

definition opened :: ImageEditorApp where
  "opened = open_image sim ImageEditorApp_init ''test_image.jpg''"

definition loaded :: FilterManager where
  "loaded = filter_manager opened"

text \<open>The manager after one brightness edit of the loaded image, and after that edit is
  undone.\<close>

definition brightened :: FilterManager where
  "brightened = snd (apply_filter sim loaded ''brightness'' [(''value'', PInt 10)])"

definition undone :: FilterManager where
  "undone = snd (undo brightened)"

text \<open>The manager after a second brightness edit, made on top of the undone one.\<close>

definition rebrightened :: FilterManager where
  "rebrightened = snd (apply_filter sim undone ''brightness'' [(''value'', PInt 20)])"

text \<open>The document \<open>Image_init\<close> builds from \<open>test_image.jpg\<close>.\<close>

definition doc :: Image where
  "doc = \<lparr>filepath = ''test_image.jpg'', original_image = test_image,
          current_image = test_image, width = 2, height = 2\<rparr>"

text \<open>The manager after the loaded image is resized to half its size.\<close>

definition halved :: FilterManager where
  "halved = snd (apply_filter sim loaded ''resize'' [(''scale'', PFloat (1 / 2))])"

text \<open>Two edits in a row, a brightness change and a resize, and the manager after them.\<close>

definition two_edits :: "(string \<times> kwargs) list" where
  "two_edits = [(''brightness'', [(''value'', PInt 10)]), (''resize'', [(''scale'', PFloat (1 / 2))])]"

definition edited :: FilterManager where
  "edited = snd (apply_filter sim brightened ''resize'' [(''scale'', PFloat (1 / 2))])"

section \<open>Facts about single calls\<close>

lemma set_current_image_ok:
  "2 \<le> length (shape b) \<Longrightarrow>
   Image_set_current_image im b =
     (None, im\<lparr>current_image := b, height := shape b ! 0, width := shape b ! 1\<rparr>)"
  by (simp add: Image_set_current_image_def)

text \<open>What a call of \<open>apply_filter\<close> that returns \<open>True\<close> has done.\<close>

lemma apply_filter_TrueD:
  assumes "apply_filter L fm k kw = (True, fm')"
  obtains im f r where
    "fm_current_image fm = Some im"
    "get_filter fm k = Some f"
    "filter_apply L f (current_image im) kw = Inr r"
    "2 \<le> length (shape r)"
    "fm' = fm\<lparr>undo_stack := undo_stack fm @ [current_image im], redo_stack := [],
               fm_current_image :=
                 Some (im\<lparr>current_image := r, height := shape r ! 0, width := shape r ! 1\<rparr>),
               history := history fm @ [operation_text L f kw]\<rparr>"
  using assms
  by (auto simp: apply_filter_def Let_def add_to_history_def Image_set_current_image_def
           split: option.splits sum.splits if_splits prod.splits)

lemma undo_snoc:
  assumes "fm_current_image fm = Some im" "undo_stack fm = st @ [b]" "2 \<le> length (shape b)"
  shows "undo fm =
    (Inr True, fm\<lparr>redo_stack := redo_stack fm @ [current_image im], undo_stack := st,
                 fm_current_image :=
                   Some (im\<lparr>current_image := b, height := shape b ! 0, width := shape b ! 1\<rparr>)\<rparr>)"
  using assms by (simp add: undo_def Let_def set_current_image_ok)

lemma kernel_size_odd: "odd (kernel_size k)"
  by (auto simp: kernel_size_def max_def odd_iff_mod_2_eq_one)

text \<open>The example states, evaluated.\<close>

lemma loaded_eq:
  "loaded = \<lparr>registry =
    [(''grayscale'', GrayscaleFilter), (''blur'', BlurFilter),
     (''edge'', EdgeDetectionFilter),
     (''brightness'', BrightnessAdjustment),
     (''contrast'', ContrastAdjustment), (''rotate'', RotationFilter),
     (''flip'', FlipFilter), (''resize'', ResizeFilter)],
    history = [],
    fm_current_image = Some \<lparr>filepath = ''test_image.jpg'', original_image = test_image,
       current_image = test_image, width = 2, height = 2\<rparr>,
    undo_stack = [], redo_stack = []\<rparr>"
  by code_simp

lemma apply_brightness_loaded:
  "apply_filter sim loaded ''brightness'' [(''value'', PInt 10)] = (True, brightened)"
  unfolding brightened_def by code_simp

lemma undone_facts:
  "fm_current_image undone = Some doc"
  "get_filter undone ''resize'' = Some ResizeFilter"
  "redo_stack undone = [\<lparr>shape = [2, 2, 1], samples = [20, 30, 40, 255]\<rparr>]"
  "undo_stack undone = []"
  by code_simp+

lemma apply_brightness_undone:
  "apply_filter sim undone ''brightness'' [(''value'', PInt 20)] = (True, rebrightened)"
  unfolding rebrightened_def by code_simp

lemma resize_to_nothing:
  "filter_apply sim ResizeFilter (current_image doc) [(''scale'', PFloat 0)] = Inl cv2_error"
  by code_simp

text \<open>Each handler is \<open>preview_with\<close> at the request of its slider.\<close>

lemma command_eq:
  "command L s a v =
     preview_with L a (fst (preview_request L s v)) (snd (preview_request L s v))"
  by (cases s)
     (simp_all add: on_blur_change_def on_brightness_change_def on_contrast_change_def
        on_resize_change_def preview_with_def Let_def split: option.splits sum.splits)

text \<open>A preview update writes neither the baseline nor the history of the manager, and
  it keeps the document.\<close>

lemma preview_with_keeps:
  "original_for_sliders (preview_with L a k kw) = original_for_sliders a"
  "undo_stack (filter_manager (preview_with L a k kw)) = undo_stack (filter_manager a)"
  "redo_stack (filter_manager (preview_with L a k kw)) = redo_stack (filter_manager a)"
  "history (filter_manager (preview_with L a k kw)) = history (filter_manager a)"
  "registry (filter_manager (preview_with L a k kw)) = registry (filter_manager a)"
  by (simp_all add: preview_with_def split: option.splits sum.splits)

lemma preview_with_image:
  "app_image a = Some im \<Longrightarrow> \<exists>im'. app_image (preview_with L a k kw) = Some im'"
  by (simp add: preview_with_def app_image_def split: option.splits sum.splits)

lemma preview_with_no_image:
  "app_image a = None \<Longrightarrow> preview_with L a k kw = a"
  by (simp add: preview_with_def)

lemma preview_with_shows:
  assumes "app_image a = Some im" "original_for_sliders a = Some baseline"
    "get_filter (filter_manager a) k = Some f"
    "filter_apply L f baseline kw = Inr r"
  shows "displayed (preview_with L a k kw) = Some r"
  using assms
  by (simp add: preview_with_def displayed_def app_image_def Image_set_current_image_def Let_def)

lemma preview_with_fails:
  assumes "app_image a = Some im" "original_for_sliders a = Some baseline"
    "get_filter (filter_manager a) k = Some f"
    "filter_apply L f baseline kw = Inl e"
  shows "preview_with L a k kw = a"
  using assms by (simp add: preview_with_def)

lemma slider_store_keeps:
  "filter_manager (slider_store a s v) = filter_manager a"
  "original_for_sliders (slider_store a s v) = original_for_sliders a"
  by (cases s; simp)+

lemma slider_store_shows:
  "app_image (slider_store a s v) = app_image a"
  "displayed (slider_store a s v) = displayed a"
  by (simp_all add: app_image_def displayed_def slider_store_keeps)

lemma slider_moved_keeps:
  "original_for_sliders (slider_moved L a s v) = original_for_sliders a"
  "undo_stack (filter_manager (slider_moved L a s v)) = undo_stack (filter_manager a)"
  "redo_stack (filter_manager (slider_moved L a s v)) = redo_stack (filter_manager a)"
  "history (filter_manager (slider_moved L a s v)) = history (filter_manager a)"
  "registry (filter_manager (slider_moved L a s v)) = registry (filter_manager a)"
  by (simp_all add: slider_moved_def command_eq preview_with_keeps slider_store_keeps)

lemma slider_moved_image:
  assumes "app_image a = Some im"
  shows "\<exists>im'. app_image (slider_moved L a s v) = Some im'"
proof -
  from assms have "app_image (slider_store a s v) = Some im" by (simp add: slider_store_shows)
  then show ?thesis
    unfolding slider_moved_def command_eq by (rule preview_with_image)
qed

lemma slider_moved_no_image:
  "app_image a = None \<Longrightarrow> app_image (slider_moved L a s v) = None"
  by (simp add: slider_moved_def command_eq preview_with_no_image slider_store_shows)

lemma slider_set_keeps:
  "original_for_sliders (slider_set L a s v) = original_for_sliders a"
  "undo_stack (filter_manager (slider_set L a s v)) = undo_stack (filter_manager a)"
  "redo_stack (filter_manager (slider_set L a s v)) = redo_stack (filter_manager a)"
  "history (filter_manager (slider_set L a s v)) = history (filter_manager a)"
  "registry (filter_manager (slider_set L a s v)) = registry (filter_manager a)"
  by (simp_all add: slider_set_def slider_moved_keeps)

lemma reset_sliders_keeps:
  "original_for_sliders (reset_sliders L a) = original_for_sliders a"
  "undo_stack (filter_manager (reset_sliders L a)) = undo_stack (filter_manager a)"
  "redo_stack (filter_manager (reset_sliders L a)) = redo_stack (filter_manager a)"
  "history (filter_manager (reset_sliders L a)) = history (filter_manager a)"
  "registry (filter_manager (reset_sliders L a)) = registry (filter_manager a)"
  by (simp_all add: reset_sliders_def Let_def slider_set_keeps)

lemma slider_moves_keeps:
  "original_for_sliders (slider_moves L a us) = original_for_sliders a \<and>
   undo_stack (filter_manager (slider_moves L a us)) = undo_stack (filter_manager a) \<and>
   redo_stack (filter_manager (slider_moves L a us)) = redo_stack (filter_manager a) \<and>
   history (filter_manager (slider_moves L a us)) = history (filter_manager a) \<and>
   registry (filter_manager (slider_moves L a us)) = registry (filter_manager a)"
  unfolding slider_moves_def
  by (induction us arbitrary: a) (simp_all add: slider_moved_keeps)

lemma slider_moves_image:
  "app_image a = Some im \<Longrightarrow> \<exists>im'. app_image (slider_moves L a us) = Some im'"
  unfolding slider_moves_def
proof (induction us arbitrary: a im)
  case Nil
  then show ?case by simp
next
  case (Cons u us)
  from slider_moved_image [OF Cons.prems] obtain im1 where
    "app_image (slider_moved L a (fst u) (snd u)) = Some im1" by blast
  from Cons.IH [OF this] show ?case by simp
qed

text \<open>The last of \<open>n + 1\<close> undos can be taken off the end of the run.\<close>

lemma undos_Suc_right:
  "undos (Suc n) fm =
     (case undos n fm of
        None \<Rightarrow> None
      | Some t \<Rightarrow> (case undo t of (Inr True, t') \<Rightarrow> Some t' | _ \<Rightarrow> None))"
proof (induction n arbitrary: fm)
  case 0
  show ?case by (simp split: prod.splits sum.splits bool.splits)
next
  case (Suc n)
  show ?case
  proof (cases "undo fm")
    case (Pair r fm1)
    show ?thesis
    proof (cases "r = Inr True")
      case True
      with Pair Suc.IH [of fm1] show ?thesis by simp
    next
      case False
      with Pair show ?thesis by (cases r) (auto split: bool.splits)
    qed
  qed
qed

lemma two_edits_run: "apply_filters sim loaded two_edits = Some edited"
  by code_simp

lemma loaded_doc: "fm_current_image loaded = Some doc"
  by code_simp

lemma doc_two_dims: "2 \<le> length (shape (current_image doc))"
  by code_simp

text \<open>Brightness with a value that fits 16 bits never fails on a valid image.\<close>

lemma brightness_in_range:
  "validate_image b \<Longrightarrow> - 32768 \<le> v \<Longrightarrow> v \<le> 32767 \<Longrightarrow>
   filter_apply L BrightnessAdjustment b [(''value'', PInt v)] = BrightnessAdjustment_apply L b v \<and>
   BrightnessAdjustment_apply L b v =
     Inr (convert_to_uint8 (shape b) (map (\<lambda>s. add_int16 s v) (samples b)))"
  by (simp add: filter_apply_def kw_int_def BrightnessAdjustment_apply_def)

text \<open>Undo and redo, when they return \<open>True\<close>, record the dimensions of the buffer they
  restore and leave the original buffer alone.\<close>

lemma undo_True_dimensions:
  assumes "undo fm = (Inr True, fm')"
  shows "\<exists>i i'. fm_current_image fm = Some i \<and> fm_current_image fm' = Some i' \<and>
         dimensions_recorded i' \<and> original_image i' = original_image i"
  using assms
  by (auto simp: undo_def Let_def Image_set_current_image_def dimensions_recorded_def
      split: option.splits if_splits)

lemma redo_True_dimensions:
  assumes "redo fm = (Inr True, fm')"
  shows "\<exists>i i'. fm_current_image fm = Some i \<and> fm_current_image fm' = Some i' \<and>
         dimensions_recorded i' \<and> original_image i' = original_image i"
  using assms
  by (auto simp: redo_def Let_def Image_set_current_image_def dimensions_recorded_def
      split: option.splits if_splits)

lemma dimension_runs:
  "Image_init sim ''test_image.jpg'' = Inr doc"
  "Image_set_current_image doc \<lparr>shape = [1, 1, 1], samples = [255]\<rparr>
     = (None, snd (Image_set_current_image doc \<lparr>shape = [1, 1, 1], samples = [255]\<rparr>))"
  "apply_filter sim loaded ''resize'' [(''scale'', PFloat (1 / 2))] = (True, halved)"
  "undo halved = (Inr True, snd (undo halved))"
  "redo (snd (undo halved)) = (Inr True, halved)"
  "fm_current_image loaded = Some doc"
  by code_simp+

section \<open>Properties\<close>

text \<open>
  C10. Calling \<open>apply_filter\<close> when no image has been loaded returns \<open>False\<close> and leaves
  the whole manager, so the undo stack, the redo stack and the operation log, as it was,
  for every filter key and every parameter bag.
\<close>

theorem apply_filter_no_image:
  "fm_current_image fm = None \<Longrightarrow> apply_filter L fm filter_key kw = (False, fm)"
  by (simp add: apply_filter_def)

theorem apply_filter_no_image_witness:
  "fm_current_image FilterManager_init = None \<and>
   apply_filter sim FilterManager_init ''blur'' [(''intensity'', PInt 5)]
     = (False, FilterManager_init) \<and>
   undo_stack FilterManager_init = [] \<and> redo_stack FilterManager_init = [] \<and>
   history FilterManager_init = []"
proof -
  have h: "fm_current_image FilterManager_init = None"
    by (simp add: FilterManager_init_def register_default_filters_def register_filter_def)
  have e: "undo_stack FilterManager_init = [] \<and> redo_stack FilterManager_init = [] \<and>
      history FilterManager_init = []"
    by (simp add: FilterManager_init_def register_default_filters_def register_filter_def)
  from apply_filter_no_image [OF h] h e show ?thesis by simp
qed

text \<open>
  C6. For every registry and every key that is not in it, \<open>apply_filter\<close> with that key
  returns \<open>False\<close> and leaves the manager unchanged: the undo stack, the redo stack, the
  operation log and the current image are what they were.
\<close>

theorem apply_filter_unknown_key:
  "get_filter fm filter_key = None \<Longrightarrow> apply_filter L fm filter_key kw = (False, fm)"
  by (simp add: apply_filter_def split: option.splits)

theorem apply_filter_unknown_key_witness:
  "get_filter loaded ''sharpen'' = None \<and> apply_filter sim loaded ''sharpen'' [] = (False, loaded)"
proof -
  have h: "get_filter loaded ''sharpen'' = None"
    by (simp add: loaded_eq get_filter_def)
  from apply_filter_unknown_key [OF h] h show ?thesis by simp
qed

text \<open>
  C5. A call of \<open>apply_filter\<close> that returns \<open>True\<close> leaves the redo stack empty, and a
  \<open>redo\<close> issued right after it returns \<open>False\<close> and changes nothing.
\<close>

theorem successful_apply_empties_redo:
  "apply_filter L fm filter_key kw = (True, fm') \<Longrightarrow>
   redo_stack fm' = [] \<and> redo fm' = (Inr False, fm')"
  by (erule apply_filter_TrueD) (simp add: redo_def)

theorem successful_apply_empties_redo_witness:
  "redo_stack undone = [\<lparr>shape = [2, 2, 1], samples = [20, 30, 40, 255]\<rparr>] \<and>
   apply_filter sim undone ''brightness'' [(''value'', PInt 20)] = (True, rebrightened) \<and>
   redo_stack rebrightened = [] \<and> redo rebrightened = (Inr False, rebrightened)"
  using successful_apply_empties_redo [OF apply_brightness_undone] apply_brightness_undone
    undone_facts(3)
  by simp

text \<open>
  C3, as the code has it. Assigning a new document to \<open>FilterManager.current_image\<close>
  empties the undo stack and the redo stack and installs the document; the operation log
  is kept as it was.
\<close>

theorem new_document_clears_stacks:
  "undo_stack (FilterManager_set_current_image fm im) = [] \<and>
   redo_stack (FilterManager_set_current_image fm im) = [] \<and>
   history (FilterManager_set_current_image fm im) = history fm \<and>
   fm_current_image (FilterManager_set_current_image fm im) = Some im"
  by (simp add: FilterManager_set_current_image_def)

text \<open>
  C3 as stated fails: after one edit the log has an entry, and opening a file again
  leaves that entry in the log.
\<close>

theorem new_document_keeps_log:
  "history (filter_manager
      (open_image sim
         (apply_filter_permanent sim opened ''brightness'' [(''value'', PInt 10)])
         ''test_image.jpg''))
   = [''Applied Brightness with params: {...}'']"
  by code_simp

text \<open>
  C7, as the code has it. Blur with intensity 4 returns what blur with intensity 5
  returns; for every even intensity \<open>k \<ge> 0\<close> the kernel size is \<open>k + 1\<close>, for every
  negative intensity it is 1, and it is always odd and at least 1.
\<close>

theorem blur_kernel_size:
  "BlurFilter_apply L img 4 = BlurFilter_apply L img 5 \<and>
   (even k \<and> 0 \<le> k \<longrightarrow> kernel_size k = k + 1) \<and>
   (k < 0 \<longrightarrow> kernel_size k = 1) \<and>
   odd (kernel_size k) \<and> 1 \<le> kernel_size k"
proof -
  have "kernel_size 4 = kernel_size 5" by (simp add: kernel_size_def)
  then have a: "BlurFilter_apply L img 4 = BlurFilter_apply L img 5"
    by (simp add: BlurFilter_apply_def)
  have b: "even k \<and> 0 \<le> k \<longrightarrow> kernel_size k = k + 1"
    by (auto simp: kernel_size_def max_def dest: odd_iff_mod_2_eq_one [THEN iffD2])
  have c: "k < 0 \<longrightarrow> kernel_size k = 1"
    by (auto simp: kernel_size_def max_def)
  have d: "1 \<le> kernel_size k" by (simp add: kernel_size_def)
  from a b c d kernel_size_odd show ?thesis by blast
qed

theorem blur_kernel_size_witness:
  "BlurFilter_apply sim test_image 4 = BlurFilter_apply sim test_image 5 \<and>
   even (4 :: int) \<and> kernel_size 4 = 5 \<and> kernel_size (- 4) = 1 \<and>
   odd (kernel_size 4) \<and> 1 \<le> kernel_size 4"
  using blur_kernel_size [of sim test_image 4] blur_kernel_size [of sim test_image "- 4"]
  by simp

text \<open>
  C7 as stated fails at the even intensity \<open>-2\<close>: the kernel size is 1, not \<open>-2 + 1\<close>.
\<close>

theorem kernel_size_negative_even:
  "even (- 2 :: int) \<and> kernel_size (- 2) = 1 \<and> kernel_size (- 2) \<noteq> - 2 + 1"
  by (simp add: kernel_size_def)

text \<open>
  C1. A call of \<open>apply_filter\<close> should either succeed in full or change nothing. On the
  path where the transform raises, the call returns \<open>False\<close> and the undo stack, the
  document and the log are what they were, but the redo stack is empty afterwards,
  whatever it held before: the \<open>except\<close> branch pops the snapshot and does not put back
  the redo stack that was cleared ahead of the transform.
\<close>

theorem failed_transform_empties_redo:
  assumes "fm_current_image fm = Some im"
    and "get_filter fm filter_key = Some f"
    and "filter_apply L f (current_image im) kw = Inl e"
  shows "apply_filter L fm filter_key kw = (False, fm\<lparr>redo_stack := []\<rparr>)"
  using assms by (simp add: apply_filter_def Let_def apply_filter_except_def)

theorem failed_transform_empties_redo_witness:
  "redo_stack undone = [\<lparr>shape = [2, 2, 1], samples = [20, 30, 40, 255]\<rparr>] \<and>
   apply_filter sim undone ''resize'' [(''scale'', PFloat 0)]
     = (False, undone\<lparr>redo_stack := []\<rparr>) \<and>
   redo_stack (snd (apply_filter sim undone ''resize'' [(''scale'', PFloat 0)])) = []"
  using failed_transform_empties_redo [OF undone_facts(1) undone_facts(2) resize_to_nothing]
    undone_facts(3)
  by simp

text \<open>
  C2, as the code has it. A preview gesture, any run of movements of the four sliders
  followed by one commit, leaves the undo stack, the redo stack and the operation log as
  they were; the commit makes the buffer shown at that moment the baseline. The gesture
  is no history step: when the undo stack was empty before it, an undo right after the
  commit returns \<open>False\<close> and changes nothing.
\<close>

theorem gesture_writes_no_history:
  "undo_stack (filter_manager (gesture L a us)) = undo_stack (filter_manager a) \<and>
   redo_stack (filter_manager (gesture L a us)) = redo_stack (filter_manager a) \<and>
   history (filter_manager (gesture L a us)) = history (filter_manager a) \<and>
   original_for_sliders (gesture L a us) =
     (case displayed (slider_moves L a us) of
        None \<Rightarrow> original_for_sliders a
      | Some b \<Rightarrow> Some b) \<and>
   (undo_stack (filter_manager a) = [] \<longrightarrow>
      app_undo (gesture L a us) = (Inr False, gesture L a us))"
proof -
  let ?p = "slider_moves L a us"
  have k: "original_for_sliders ?p = original_for_sliders a"
    "undo_stack (filter_manager ?p) = undo_stack (filter_manager a)"
    "redo_stack (filter_manager ?p) = redo_stack (filter_manager a)"
    "history (filter_manager ?p) = history (filter_manager a)"
    using slider_moves_keeps [of L a us] by simp_all
  have st: "undo_stack (filter_manager (gesture L a us)) = undo_stack (filter_manager a)"
    "redo_stack (filter_manager (gesture L a us)) = redo_stack (filter_manager a)"
    "history (filter_manager (gesture L a us)) = history (filter_manager a)"
    by (simp_all add: gesture_def commit_slider_changes_def reset_sliders_keeps k
        split: option.splits)
  have b: "original_for_sliders (gesture L a us) =
     (case displayed ?p of None \<Rightarrow> original_for_sliders a | Some b \<Rightarrow> Some b)"
    by (simp add: gesture_def commit_slider_changes_def displayed_def reset_sliders_keeps k
        split: option.splits)
  have u: "undo_stack (filter_manager a) = [] \<longrightarrow>
      app_undo (gesture L a us) = (Inr False, gesture L a us)"
    by (simp add: app_undo_def undo_def st)
  from st b u show ?thesis by simp
qed

theorem gesture_writes_no_history_witness:
  "undo_stack (filter_manager opened) = [] \<and>
   app_undo (gesture sim opened [(BlurSlider, 3), (ResizeSlider, 50), (BrightnessSlider, 5)])
     = (Inr False, gesture sim opened [(BlurSlider, 3), (ResizeSlider, 50), (BrightnessSlider, 5)]) \<and>
   undo_stack (filter_manager
       (gesture sim opened [(BlurSlider, 3), (ResizeSlider, 50), (BrightnessSlider, 5)]))
     = undo_stack (filter_manager opened) \<and>
   displayed (slider_moves sim opened [(BlurSlider, 3), (ResizeSlider, 50), (BrightnessSlider, 5)])
     = Some \<lparr>shape = [2, 2, 1], samples = [15, 25, 35, 255]\<rparr> \<and>
   original_for_sliders
       (gesture sim opened [(BlurSlider, 3), (ResizeSlider, 50), (BrightnessSlider, 5)])
     = Some \<lparr>shape = [2, 2, 1], samples = [15, 25, 35, 255]\<rparr>"
proof -
  have h: "undo_stack (filter_manager opened) = []" by code_simp
  have d: "displayed (slider_moves sim opened [(BlurSlider, 3), (ResizeSlider, 50), (BrightnessSlider, 5)])
      = Some \<lparr>shape = [2, 2, 1], samples = [15, 25, 35, 255]\<rparr>"
    by code_simp
  from gesture_writes_no_history
         [of sim opened "[(BlurSlider, 3), (ResizeSlider, 50), (BrightnessSlider, 5)]"] h d
  show ?thesis by simp
qed

text \<open>
  C2 as stated fails: after the image is opened, the brightness slider is moved to 5 and
  to 10, and the changes are committed, the undo stack and the log are still empty, and
  an undo returns \<open>False\<close> and leaves the brightened buffer, not the buffer from before
  the gesture.
\<close>

theorem commit_pushes_nothing:
  "undo_stack (filter_manager
       (gesture sim opened [(BrightnessSlider, 5), (BrightnessSlider, 10)])) = [] \<and>
   history (filter_manager
       (gesture sim opened [(BrightnessSlider, 5), (BrightnessSlider, 10)])) = [] \<and>
   displayed opened = Some \<lparr>shape = [2, 2, 1], samples = [10, 20, 30, 250]\<rparr> \<and>
   displayed (gesture sim opened [(BrightnessSlider, 5), (BrightnessSlider, 10)])
     = Some \<lparr>shape = [2, 2, 1], samples = [20, 30, 40, 255]\<rparr> \<and>
   fst (app_undo (gesture sim opened [(BrightnessSlider, 5), (BrightnessSlider, 10)]))
     = Inr False \<and>
   displayed (snd (app_undo (gesture sim opened [(BrightnessSlider, 5), (BrightnessSlider, 10)])))
     = Some \<lparr>shape = [2, 2, 1], samples = [20, 30, 40, 255]\<rparr>"
  by code_simp

text \<open>
  C4. Starting from a loaded image (a decoded image has a height and a width), after any
  run of \<open>N\<close> calls of \<open>apply_filter\<close> that all return \<open>True\<close>, \<open>N\<close> calls of \<open>undo\<close>
  all return \<open>True\<close> and leave the current buffer equal to the buffer from before the
  first call; the undo stack is back to what it was as well.
\<close>

theorem apply_then_undo_roundtrip:
  assumes "apply_filters L fm cs = Some fm'"
    and "fm_current_image fm = Some im"
    and "2 \<le> length (shape (current_image im))"
  shows "\<exists>fm'' im''. undos (length cs) fm' = Some fm'' \<and> fm_current_image fm'' = Some im''
           \<and> current_image im'' = current_image im \<and> undo_stack fm'' = undo_stack fm"
  using assms
proof (induction cs arbitrary: fm im)
  case Nil
  then show ?case by simp
next
  case (Cons c cs)
  from Cons.prems(1) obtain fm1 where
    step: "apply_filter L fm (fst c) (snd c) = (True, fm1)" and rest: "apply_filters L fm1 cs = Some fm'"
    by (auto split: prod.splits bool.splits)
  from step obtain im0 f r where
    im0: "fm_current_image fm = Some im0" and r2: "2 \<le> length (shape r)" and
    fm1: "fm1 = fm\<lparr>undo_stack := undo_stack fm @ [current_image im0], redo_stack := [],
               fm_current_image :=
                 Some (im0\<lparr>current_image := r, height := shape r ! 0, width := shape r ! 1\<rparr>),
               history := history fm @ [operation_text L f (snd c)]\<rparr>"
    by (rule apply_filter_TrueD)
  from im0 Cons.prems(2) have [simp]: "im0 = im" by simp
  let ?im1 = "im\<lparr>current_image := r, height := shape r ! 0, width := shape r ! 1\<rparr>"
  have c1: "fm_current_image fm1 = Some ?im1" by (simp add: fm1)
  have c2: "2 \<le> length (shape (current_image ?im1))" using r2 by simp
  from Cons.IH [OF rest c1 c2] obtain t imt where
    t: "undos (length cs) fm' = Some t" and it: "fm_current_image t = Some imt"
    and ut: "undo_stack t = undo_stack fm1" by blast
  have ut': "undo_stack t = undo_stack fm @ [current_image im]" by (simp add: ut fm1)
  have u: "undo t = (Inr True, t\<lparr>redo_stack := redo_stack t @ [current_image imt], undo_stack := undo_stack fm,
                 fm_current_image :=
                   Some (imt\<lparr>current_image := current_image im, height := shape (current_image im) ! 0,
                      width := shape (current_image im) ! 1\<rparr>)\<rparr>)"
    by (rule undo_snoc [OF it ut' Cons.prems(3)])
  have "undos (length (c # cs)) fm' = Some (t\<lparr>redo_stack := redo_stack t @ [current_image imt], undo_stack := undo_stack fm,
                 fm_current_image :=
                   Some (imt\<lparr>current_image := current_image im, height := shape (current_image im) ! 0,
                      width := shape (current_image im) ! 1\<rparr>)\<rparr>)"
    using t u by (simp add: undos_Suc_right del: undos.simps)
  then show ?case by simp
qed

theorem apply_then_undo_roundtrip_witness:
  "apply_filters sim loaded two_edits = Some edited \<and>
   map_option current_image (fm_current_image edited) = Some \<lparr>shape = [1, 1, 1], samples = [0]\<rparr> \<and>
   current_image doc = \<lparr>shape = [2, 2, 1], samples = [10, 20, 30, 250]\<rparr> \<and>
   (\<exists>fm'' im''. undos (length two_edits) edited = Some fm'' \<and> fm_current_image fm'' = Some im''
       \<and> current_image im'' = current_image doc \<and> undo_stack fm'' = undo_stack loaded)"
proof -
  have a: "map_option current_image (fm_current_image edited) = Some \<lparr>shape = [1, 1, 1], samples = [0]\<rparr>"
    by code_simp
  have b: "current_image doc = \<lparr>shape = [2, 2, 1], samples = [10, 20, 30, 250]\<rparr>"
    by code_simp
  from apply_then_undo_roundtrip [OF two_edits_run loaded_doc doc_two_dims] two_edits_run a b
  show ?thesis by simp
qed

text \<open>
  C8, as the code has it. No preview update changes the baseline. A preview update whose
  transform succeeds on the baseline shows the result of that transform, computed from
  the baseline and never from the current buffer, so it shows the same after any run of
  other updates as it shows alone; in particular the updates \<open>p1\<close>, \<open>p2\<close>, \<open>p1\<close> show
  what a single update \<open>p1\<close> shows. A preview update whose transform raises leaves the
  buffer that was shown. The brightness transform of the default registry cannot raise
  for a slider value in \<open>[-100, 100]\<close> on a valid baseline.
\<close>

theorem preview_relative_to_baseline:
  assumes "app_image a = Some im"
    and "original_for_sliders a = Some baseline"
    and "get_filter (filter_manager a) (fst (preview_request L s v)) = Some f"
  shows "original_for_sliders (slider_moved L (slider_moves L a us) s v) = Some baseline \<and>
     (filter_apply L f baseline (snd (preview_request L s v)) = Inr r \<longrightarrow>
        displayed (slider_moved L a s v) = Some r \<and>
        displayed (slider_moved L (slider_moves L a us) s v) = Some r) \<and>
     (filter_apply L f baseline (snd (preview_request L s v)) = Inl e \<longrightarrow>
        displayed (slider_moved L a s v) = displayed a) \<and>
     (s = BrightnessSlider \<and> f = BrightnessAdjustment \<and> validate_image baseline \<and>
      - 100 \<le> py_int v \<and> py_int v \<le> 100 \<longrightarrow>
        displayed (slider_moved L a s v)
          = Some (convert_to_uint8 (shape baseline)
                    (map (\<lambda>x. add_int16 x (py_int v)) (samples baseline))) \<and>
        displayed (slider_moved L (slider_moves L a us) s v) = displayed (slider_moved L a s v))"
proof -
  let ?k = "fst (preview_request L s v)" and ?kw = "snd (preview_request L s v)"
  let ?b = "slider_moves L a us"
  have now: "slider_moved L a s v = preview_with L (slider_store a s v) ?k ?kw"
    by (simp add: slider_moved_def command_eq)
  have later: "slider_moved L ?b s v = preview_with L (slider_store ?b s v) ?k ?kw"
    by (simp add: slider_moved_def command_eq)
  have i0: "app_image (slider_store a s v) = Some im"
    by (simp add: slider_store_shows assms(1))
  have b0: "original_for_sliders (slider_store a s v) = Some baseline"
    by (simp add: slider_store_keeps assms(2))
  have f0: "get_filter (filter_manager (slider_store a s v)) ?k = Some f"
    by (simp add: slider_store_keeps assms(3))
  from slider_moves_image [OF assms(1)] obtain im1 where "app_image ?b = Some im1" by blast
  then have i1: "app_image (slider_store ?b s v) = Some im1"
    by (simp add: slider_store_shows)
  have b1: "original_for_sliders (slider_store ?b s v) = Some baseline"
    using slider_moves_keeps [of L a us] by (simp add: slider_store_keeps assms(2))
  have f1: "get_filter (filter_manager (slider_store ?b s v)) ?k = Some f"
    using slider_moves_keeps [of L a us] assms(3)
    by (simp add: slider_store_keeps get_filter_def)
  have fixed: "original_for_sliders (slider_moved L ?b s v) = Some baseline"
    using slider_moves_keeps [of L a us] by (simp add: slider_moved_keeps assms(2))
  have good: "filter_apply L f baseline ?kw = Inr r \<longrightarrow>
        displayed (slider_moved L a s v) = Some r \<and> displayed (slider_moved L ?b s v) = Some r"
  proof
    assume run: "filter_apply L f baseline ?kw = Inr r"
    show "displayed (slider_moved L a s v) = Some r \<and> displayed (slider_moved L ?b s v) = Some r"
      unfolding now later
      using preview_with_shows [OF i0 b0 f0 run] preview_with_shows [OF i1 b1 f1 run] by simp
  qed
  have bad: "filter_apply L f baseline ?kw = Inl e \<longrightarrow>
        displayed (slider_moved L a s v) = displayed a"
  proof
    assume run: "filter_apply L f baseline ?kw = Inl e"
    show "displayed (slider_moved L a s v) = displayed a"
      unfolding now using preview_with_fails [OF i0 b0 f0 run] by (simp add: slider_store_shows)
  qed
  have bright: "s = BrightnessSlider \<and> f = BrightnessAdjustment \<and> validate_image baseline \<and>
      - 100 \<le> py_int v \<and> py_int v \<le> 100 \<longrightarrow>
        displayed (slider_moved L a s v)
          = Some (convert_to_uint8 (shape baseline)
                    (map (\<lambda>x. add_int16 x (py_int v)) (samples baseline))) \<and>
        displayed (slider_moved L ?b s v) = displayed (slider_moved L a s v)"
  proof
    assume h: "s = BrightnessSlider \<and> f = BrightnessAdjustment \<and> validate_image baseline \<and>
      - 100 \<le> py_int v \<and> py_int v \<le> 100"
    let ?r = "convert_to_uint8 (shape baseline) (map (\<lambda>x. add_int16 x (py_int v)) (samples baseline))"
    from h have valid: "validate_image baseline" and lo: "- 32768 \<le> py_int v"
      and hi: "py_int v \<le> 32767" by simp_all
    from brightness_in_range [OF valid lo hi, of L] h
    have run: "filter_apply L f baseline ?kw = Inr ?r" by simp
    show "displayed (slider_moved L a s v) = Some ?r \<and>
        displayed (slider_moved L ?b s v) = displayed (slider_moved L a s v)"
      unfolding now later
      using preview_with_shows [OF i0 b0 f0 run] preview_with_shows [OF i1 b1 f1 run] by simp
  qed
  from fixed good bad bright show ?thesis by blast
qed

theorem preview_relative_to_baseline_witness:
  "displayed (slider_moved sim opened BrightnessSlider 10)
     = Some \<lparr>shape = [2, 2, 1], samples = [20, 30, 40, 255]\<rparr> \<and>
   displayed (slider_moved sim
       (slider_moves sim opened [(BrightnessSlider, 10), (ResizeSlider, 50)]) BrightnessSlider 10)
     = Some \<lparr>shape = [2, 2, 1], samples = [20, 30, 40, 255]\<rparr> \<and>
   original_for_sliders (slider_moved sim
       (slider_moves sim opened [(BrightnessSlider, 10), (ResizeSlider, 50)]) BrightnessSlider 10)
     = Some test_image \<and>
   displayed (slider_moved sim
       (slider_moves sim opened [(ResizeSlider, 50), (BrightnessSlider, 10)]) ResizeSlider 50)
     = Some \<lparr>shape = [1, 1, 1], samples = [0]\<rparr> \<and>
   displayed (slider_moved sim opened ResizeSlider 25) = displayed opened"
proof -
  have h1: "app_image opened = Some doc" by code_simp
  have h2: "original_for_sliders opened = Some test_image" by code_simp
  have h3: "get_filter (filter_manager opened) (fst (preview_request sim BrightnessSlider 10))
      = Some BrightnessAdjustment" by code_simp
  have h4: "get_filter (filter_manager opened) (fst (preview_request sim ResizeSlider 50))
      = Some ResizeFilter" by code_simp
  have h5: "get_filter (filter_manager opened) (fst (preview_request sim ResizeSlider 25))
      = Some ResizeFilter" by code_simp
  have r1: "filter_apply sim BrightnessAdjustment test_image
        (snd (preview_request sim BrightnessSlider 10))
      = Inr \<lparr>shape = [2, 2, 1], samples = [20, 30, 40, 255]\<rparr>" by code_simp
  have r2: "filter_apply sim ResizeFilter test_image (snd (preview_request sim ResizeSlider 50))
      = Inr \<lparr>shape = [1, 1, 1], samples = [0]\<rparr>" by code_simp
  have r3: "filter_apply sim ResizeFilter test_image (snd (preview_request sim ResizeSlider 25))
      = Inl cv2_error" by code_simp
  from preview_relative_to_baseline [OF h1 h2 h3,
         of "[(BrightnessSlider, 10), (ResizeSlider, 50)]"
            "\<lparr>shape = [2, 2, 1], samples = [20, 30, 40, 255]\<rparr>"]
       preview_relative_to_baseline [OF h1 h2 h4,
         of "[(ResizeSlider, 50), (BrightnessSlider, 10)]"
            "\<lparr>shape = [1, 1, 1], samples = [0]\<rparr>"]
       preview_relative_to_baseline [OF h1 h2 h5, of "[]" _ cv2_error]
       r1 r2 r3
  show ?thesis by simp
qed

text \<open>
  C8 as stated fails for the resize slider on the 2 by 2 image: at 25 per cent the target
  size is 0 by 0, the transform raises and the handler keeps what was shown. So the
  updates 25, 50, 25 show the image resized to a half, and the single update 25 shows
  the image as loaded.
\<close>

theorem failed_preview_keeps_last:
  "displayed (slider_moved sim
       (slider_moved sim (slider_moved sim opened ResizeSlider 25) ResizeSlider 50)
       ResizeSlider 25)
     = Some \<lparr>shape = [1, 1, 1], samples = [0]\<rparr> \<and>
   displayed (slider_moved sim opened ResizeSlider 25)
     = Some \<lparr>shape = [2, 2, 1], samples = [10, 20, 30, 250]\<rparr> \<and>
   original_for_sliders
       (slider_moved sim (slider_moved sim opened ResizeSlider 25) ResizeSlider 50)
     = original_for_sliders opened"
  by code_simp

text \<open>
  C9, as the code has it. A document always has a current buffer. After a load, and after
  every replacement of the current buffer that does not raise (the setter, a successful
  \<open>apply_filter\<close>, \<open>undo\<close> or \<open>redo\<close>), the recorded width and height are those of the
  current buffer. The original buffer is never changed by these calls: its dimensions are
  those of the current buffer at load and stay what they were afterwards.
\<close>

theorem dimensions_follow_current_buffer:
  "(Image_init L path = Inr im \<longrightarrow> dimensions_recorded im \<and> same_dimensions im) \<and>
   (Image_set_current_image im0 b = (None, im1) \<longrightarrow>
      dimensions_recorded im1 \<and> current_image im1 = b \<and> original_image im1 = original_image im0) \<and>
   (apply_filter L fm k kw = (True, fm1) \<longrightarrow>
      (\<exists>i i'. fm_current_image fm = Some i \<and> fm_current_image fm1 = Some i' \<and>
         dimensions_recorded i' \<and> original_image i' = original_image i)) \<and>
   (undo fm = (Inr True, fm2) \<longrightarrow>
      (\<exists>i i'. fm_current_image fm = Some i \<and> fm_current_image fm2 = Some i' \<and>
         dimensions_recorded i' \<and> original_image i' = original_image i)) \<and>
   (redo fm = (Inr True, fm3) \<longrightarrow>
      (\<exists>i i'. fm_current_image fm = Some i \<and> fm_current_image fm3 = Some i' \<and>
         dimensions_recorded i' \<and> original_image i' = original_image i))"
proof -
  have load: "Image_init L path = Inr im \<longrightarrow> dimensions_recorded im \<and> same_dimensions im"
    by (auto simp: Image_init_def dimensions_recorded_def same_dimensions_def
        split: option.splits if_splits)
  have setter: "Image_set_current_image im0 b = (None, im1) \<longrightarrow>
      dimensions_recorded im1 \<and> current_image im1 = b \<and> original_image im1 = original_image im0"
    by (auto simp: Image_set_current_image_def dimensions_recorded_def Let_def split: if_splits)
  have edit: "apply_filter L fm k kw = (True, fm1) \<longrightarrow>
      (\<exists>i i'. fm_current_image fm = Some i \<and> fm_current_image fm1 = Some i' \<and>
         dimensions_recorded i' \<and> original_image i' = original_image i)"
  proof
    assume "apply_filter L fm k kw = (True, fm1)"
    then show "\<exists>i i'. fm_current_image fm = Some i \<and> fm_current_image fm1 = Some i' \<and>
         dimensions_recorded i' \<and> original_image i' = original_image i"
      by (rule apply_filter_TrueD) (simp add: dimensions_recorded_def)
  qed
  have undoing: "undo fm = (Inr True, fm2) \<longrightarrow>
      (\<exists>i i'. fm_current_image fm = Some i \<and> fm_current_image fm2 = Some i' \<and>
         dimensions_recorded i' \<and> original_image i' = original_image i)"
  proof
    assume "undo fm = (Inr True, fm2)"
    then show "\<exists>i i'. fm_current_image fm = Some i \<and> fm_current_image fm2 = Some i' \<and>
         dimensions_recorded i' \<and> original_image i' = original_image i"
      by (rule undo_True_dimensions)
  qed
  have redoing: "redo fm = (Inr True, fm3) \<longrightarrow>
      (\<exists>i i'. fm_current_image fm = Some i \<and> fm_current_image fm3 = Some i' \<and>
         dimensions_recorded i' \<and> original_image i' = original_image i)"
  proof
    assume "redo fm = (Inr True, fm3)"
    then show "\<exists>i i'. fm_current_image fm = Some i \<and> fm_current_image fm3 = Some i' \<and>
         dimensions_recorded i' \<and> original_image i' = original_image i"
      by (rule redo_True_dimensions)
  qed
  from load setter edit undoing redoing show ?thesis by blast
qed

theorem dimensions_follow_current_buffer_witness:
  "dimensions_recorded doc \<and> same_dimensions doc \<and>
   dimensions_recorded (snd (Image_set_current_image doc \<lparr>shape = [1, 1, 1], samples = [255]\<rparr>)) \<and>
   (\<exists>i'. fm_current_image halved = Some i' \<and> dimensions_recorded i' \<and>
      original_image i' = original_image doc) \<and>
   (\<exists>i i'. fm_current_image halved = Some i \<and> fm_current_image (snd (undo halved)) = Some i' \<and>
      dimensions_recorded i' \<and> original_image i' = original_image i) \<and>
   (\<exists>i i'. fm_current_image (snd (undo halved)) = Some i \<and> fm_current_image halved = Some i' \<and>
      dimensions_recorded i' \<and> original_image i' = original_image i)"
  using dimensions_follow_current_buffer
    [of sim "''test_image.jpg''" doc doc "\<lparr>shape = [1, 1, 1], samples = [255]\<rparr>"
      "snd (Image_set_current_image doc \<lparr>shape = [1, 1, 1], samples = [255]\<rparr>)"
      loaded "''resize''" "[(''scale'', PFloat (1 / 2))]" halved "snd (undo halved)"]
    dimensions_follow_current_buffer
    [of sim "''test_image.jpg''" doc doc "\<lparr>shape = [1, 1, 1], samples = [255]\<rparr>"
      "snd (Image_set_current_image doc \<lparr>shape = [1, 1, 1], samples = [255]\<rparr>)"
      halved "''resize''" "[(''scale'', PFloat (1 / 2))]" halved "snd (undo halved)"]
    dimensions_follow_current_buffer
    [of sim "''test_image.jpg''" doc doc "\<lparr>shape = [1, 1, 1], samples = [255]\<rparr>"
      "snd (Image_set_current_image doc \<lparr>shape = [1, 1, 1], samples = [255]\<rparr>)"
      "snd (undo halved)" "''resize''" "[(''scale'', PFloat (1 / 2))]" halved "snd (undo halved)" halved]
    dimension_runs
  by simp

text \<open>
  C9 as stated fails: resizing the loaded 2 by 2 image to half its size leaves an original
  buffer of 2 by 2 and a current buffer of 1 by 1, and so does assigning a 1 by 1 buffer
  through the setter.
\<close>

theorem resize_changes_current_dimensions_only:
  "fst (apply_filter sim loaded ''resize'' [(''scale'', PFloat (1 / 2))]) \<and>
   map_option (\<lambda>i. (shape (original_image i), shape (current_image i), width i, height i))
       (fm_current_image halved)
     = Some ([2, 2, 1], [1, 1, 1], 1, 1) \<and>
   map_option same_dimensions (fm_current_image halved) = Some False \<and>
   \<not> same_dimensions (snd (Image_set_current_image doc \<lparr>shape = [1, 1, 1], samples = [255]\<rparr>))"
  by code_simp

end
